theory Spec2Isabelle
  imports Complex_Main "HOL-Library.Product_Lexorder" "HOL-Library.Multiset"
begin

section \<open>Donor lifecycle analytics of new\_analytics.py\<close>

text \<open>
  The development embeds the donor lifecycle engine of \<^verbatim>\<open>new_analytics.py\<close>:
  \<^verbatim>\<open>calculate_lifecycle_stage_advanced\<close>, \<^verbatim>\<open>calculate_churn_risk_advanced\<close>,
  \<^verbatim>\<open>get_recommended_action_advanced\<close> and the endpoint
  \<^verbatim>\<open>get_donor_lifecycle_analytics\<close>, together with the three tables of
  \<^verbatim>\<open>models.py\<close> the endpoint reads.

  Numbers: Python's \<^verbatim>\<open>int\<close> is \<^typ>\<open>int\<close>. A finite Python float is the rational number
  it denotes (\<^typ>\<open>rat\<close>). The float operations that a decision or a reported rate of the
  engine depends on (the product in the scorer, the quotients of integers and the
  rounding of the retention rate) round their exact result to the nearest binary64 value,
  as below. Amounts (\<^verbatim>\<open>Float\<close> columns), their SQL sums and the per-stage averages are
  kept as exact rationals; NaN and infinite arguments are outside the model.
\<close>

subsection \<open>Enumerations and dates\<close>

datatype LifecycleStageEnum = PROSPECT | FIRST_TIME | REPEAT | MAJOR | LAPSED | LOST

datatype ChurnRisk = LOW | MEDIUM | HIGH | CRITICAL

text \<open>A naive \<^verbatim>\<open>datetime\<close>, with the attributes Python gives it.\<close>

record datetime =
  year :: int
  month :: int
  day :: int
  hour :: int
  minute :: int
  second :: int
  microsecond :: int

subsection \<open>Floating point\<close>

datatype error = AttributeError | OverflowError | ZeroDivisionError

text \<open>
  The value of a float operation on finite operands: a finite binary64 number, given by
  its exact value, or an infinity on overflow.
\<close>

datatype pyfloat = Finite rat | PosInf | NegInf

text \<open>For \<open>x > 0\<close>, the exponent \<open>e\<close> with \<open>2 ^ e \<le> x < 2 ^ (e + 1)\<close>.\<close>

function floor_log2 :: "rat \<Rightarrow> int" where
  "floor_log2 x =
     (if x \<le> 0 then 0
      else if x \<ge> 2 then floor_log2 (x / 2) + 1
      else if x < 1 then floor_log2 (x * 2) - 1
      else 0)"
  by pat_completeness auto
termination
proof (relation "measure (\<lambda>x. if x \<ge> 1 then nat \<lfloor>x\<rfloor> else nat \<lceil>1 / x\<rceil> + 1)", goal_cases)
  case 1
  show ?case by simp
next
  case (2 x)
  then have "x / 2 \<le> x - 1" by simp
  then have "\<lfloor>x / 2\<rfloor> \<le> \<lfloor>x - 1\<rfloor>" by (rule floor_mono)
  moreover have "\<lfloor>x\<rfloor> \<ge> 2" using 2 by (simp add: le_floor_iff)
  ultimately show ?case using 2 by simp
next
  case (3 x)
  then have x: "0 < x" "x < 1" by simp_all
  then have y: "1 / x > 1" by simp
  then have c: "\<lceil>1 / x\<rceil> \<ge> 2" by (simp add: less_ceiling_iff)
  show ?case
  proof (cases "x * 2 \<ge> 1")
    case True
    have "\<lfloor>x * 2\<rfloor> \<le> 1" using x by (simp add: floor_le_iff)
    then have "nat \<lfloor>x * 2\<rfloor> \<le> 1" by linarith
    moreover have "nat \<lceil>1 / x\<rceil> \<ge> 2" using c by linarith
    ultimately show ?thesis using True x by simp
  next
    case False
    then have "1 / x > 2" using x by (simp add: field_simps)
    then have "1 / (x * 2) \<le> 1 / x - 1" using x by (simp add: field_simps)
    then have "\<lceil>1 / (x * 2)\<rceil> \<le> \<lceil>1 / x - 1\<rceil>" by (rule ceiling_mono)
    then show ?thesis using False x c by simp
  qed
qed

declare floor_log2.simps [simp del]

definition pow2 :: "int \<Rightarrow> rat" where
  "pow2 e = (if e \<ge> 0 then 2 ^ nat e else 1 / 2 ^ nat (- e))"

text \<open>The nearest integer, a tie going to the even neighbour.\<close>

definition round_half_even :: "rat \<Rightarrow> int" where
  "round_half_even x =
     (let lower = \<lfloor>x\<rfloor>;
          rest = x - of_int lower
      in if rest < 1 / 2 then lower
         else if rest > 1 / 2 then lower + 1
         else if even lower then lower else lower + 1)"

text \<open>
  IEEE 754 rounding of an exact result to binary64, round to nearest, ties to even: the
  result is a multiple of the unit in the last place of \<open>x\<close>, which is \<open>2 ^ (e - 52)\<close> for
  a significand of 53 bits, the exponent \<open>e\<close> being at least \<open>- 1022\<close> (below that the
  numbers are subnormal and the unit stays \<open>2 ^ - 1074\<close>); a rounded magnitude of
  \<open>2 ^ 1024\<close> or more overflows to an infinity.
\<close>

definition round_to_double :: "rat \<Rightarrow> pyfloat" where
  "round_to_double x =
     (if x = 0 then Finite 0
      else
        let e = max (floor_log2 \<bar>x\<bar>) (- 1022);
            ulp = pow2 (e - 52);
            y = of_int (round_half_even (x / ulp)) * ulp
        in if y \<ge> pow2 1024 then PosInf
           else if y \<le> - pow2 1024 then NegInf
           else Finite y)"

text \<open>\<^verbatim>\<open>a * b\<close> on two finite floats.\<close>

definition float_mul :: "rat \<Rightarrow> rat \<Rightarrow> pyfloat" where
  "float_mul a b = round_to_double (a * b)"

text \<open>\<^verbatim>\<open>i > x\<close> for an \<^verbatim>\<open>int\<close> and a float: Python compares the two exact values.\<close>

fun int_gt_float :: "int \<Rightarrow> pyfloat \<Rightarrow> bool" where
  "int_gt_float i (Finite y) = (of_int i > y)"
| "int_gt_float i PosInf = False"
| "int_gt_float i NegInf = True"

text \<open>
  \<^verbatim>\<open>a / b\<close> on two \<^verbatim>\<open>int\<close>s: the correctly rounded quotient; Python raises
  \<^verbatim>\<open>ZeroDivisionError\<close> on a zero divisor and \<^verbatim>\<open>OverflowError\<close> when the quotient is too
  large for a float.
\<close>

definition int_truediv :: "int \<Rightarrow> int \<Rightarrow> error + rat" where
  "int_truediv a b =
     (if b = 0 then Inl ZeroDivisionError
      else case round_to_double (of_int a / of_int b) of
             Finite q \<Rightarrow> Inr q
           | _ \<Rightarrow> Inl OverflowError)"

text \<open>
  \<^verbatim>\<open>round(x, ndigits)\<close> on an exact value: to the nearest multiple of \<open>10 ^ - ndigits\<close>, a
  tie going to the even neighbour.
\<close>

definition py_round :: "rat \<Rightarrow> nat \<Rightarrow> rat" where
  "py_round x ndigits =
     (let scaled = x * 10 ^ ndigits;
          lower = \<lfloor>scaled\<rfloor>;
          rest = scaled - of_int lower
      in of_int (if rest < 1 / 2 then lower
                 else if rest > 1 / 2 then lower + 1
                 else if even lower then lower else lower + 1) / 10 ^ ndigits)"

text \<open>
  \<^verbatim>\<open>round(x, ndigits)\<close> on a float, for the small positive \<^verbatim>\<open>ndigits\<close> that the endpoint
  passes: CPython rounds the exact value of \<open>x\<close> to the decimal place, ties to even, and
  converts the decimal numeral back to the nearest float; it raises \<^verbatim>\<open>OverflowError\<close>
  when that conversion overflows, and an infinity rounds to itself.
\<close>

definition float_round :: "pyfloat \<Rightarrow> nat \<Rightarrow> error + pyfloat" where
  "float_round x ndigits =
     (case x of
        Finite r \<Rightarrow>
          (case round_to_double (py_round r ndigits) of
             Finite y \<Rightarrow> Inr (Finite y)
           | _ \<Rightarrow> Inl OverflowError)
      | _ \<Rightarrow> Inr x)"

subsection \<open>The lifecycle stage classifier\<close>

definition calculate_lifecycle_stage_advanced ::
  "int \<Rightarrow> datetime option \<Rightarrow> rat \<Rightarrow> int \<Rightarrow> LifecycleStageEnum" where
  "calculate_lifecycle_stage_advanced donation_count last_donation_date lifetime_value days_since_last =
     (if donation_count = 0 then PROSPECT
      else if donation_count = 1 then
        (if days_since_last > 365 then LOST else FIRST_TIME)
      else if days_since_last \<ge> 365 then
        (if days_since_last \<ge> 730 then LOST else LAPSED)
      else if lifetime_value \<ge> 5000 then MAJOR
      else REPEAT)"

text \<open>
  The ordered first-match rules as the specification words them (section 4.2), over the
  donor aggregate \<open>(donation_count, days_since_last_donation, lifetime_value)\<close>.
\<close>

definition lifecycle_stage_spec :: "int \<Rightarrow> int \<Rightarrow> rat \<Rightarrow> LifecycleStageEnum" where
  "lifecycle_stage_spec donation_count days_since_last_donation lifetime_value =
     (if donation_count = 0 then PROSPECT
      else if donation_count = 1 then
        (if days_since_last_donation > 365 then LOST else FIRST_TIME)
      else if days_since_last_donation \<ge> 730 then LOST
      else if days_since_last_donation \<ge> 365 then LAPSED
      else if lifetime_value \<ge> 5000 then MAJOR
      else REPEAT)"

subsection \<open>The churn risk scorer\<close>

text \<open>Python's \<^verbatim>\<open>str\<close> of an integer, as the f-strings of the scorer format it.\<close>

definition digit_char :: "nat \<Rightarrow> char" where
  "digit_char n = ''0123456789'' ! n"

function str_nat :: "nat \<Rightarrow> string" where
  "str_nat n = (if n < 10 then [digit_char n] else str_nat (n div 10) @ [digit_char (n mod 10)])"
  by pat_completeness auto
termination
  by (relation "measure id") auto

declare str_nat.simps [simp del]

definition str_int :: "int \<Rightarrow> string" where
  "str_int i = (if i < 0 then CHR ''-'' # str_nat (nat (- i)) else str_nat (nat i))"

text \<open>
  The body of \<^verbatim>\<open>calculate_churn_risk_advanced\<close> up to the tier decision: the pair of the
  local variables \<^verbatim>\<open>risk_score\<close> and \<^verbatim>\<open>risk_factors\<close> after the four rule blocks.
\<close>

definition churn_risk_state :: "int \<Rightarrow> int \<Rightarrow> rat \<Rightarrow> rat \<Rightarrow> int \<times> string list" where
  "churn_risk_state days_since_last donation_count avg_donation_frequency lifetime_value =
     (let (risk_score, risk_factors) = (0, []);
          (risk_score, risk_factors) =
            (if days_since_last \<ge> 365 then
               (risk_score + 40,
                risk_factors @ [''No donation in '' @ str_int days_since_last @ '' days (12+ months)''])
             else if days_since_last \<ge> 180 then
               (risk_score + 20,
                risk_factors @ [''No donation in '' @ str_int days_since_last @ '' days (6+ months)''])
             else if days_since_last \<ge> 90 then
               (risk_score + 10,
                risk_factors @ [''No donation in '' @ str_int days_since_last @ '' days (3+ months)''])
             else (risk_score, risk_factors));
          (risk_score, risk_factors) =
            (if avg_donation_frequency > 0 then
               (let expected_next = float_mul avg_donation_frequency 1.5 in
                if int_gt_float days_since_last expected_next then
                  (risk_score + 25, risk_factors @ [''Overdue based on donation pattern''])
                else (risk_score, risk_factors))
             else (risk_score, risk_factors));
          (risk_score, risk_factors) =
            (if donation_count < 3 then
               (risk_score + 15, risk_factors @ [''Limited giving history (< 3 donations)''])
             else (risk_score, risk_factors));
          (risk_score, risk_factors) =
            (if lifetime_value \<ge> 5000 \<and> days_since_last \<ge> 180 then
               (risk_score + 20, risk_factors @ [''High-value donor showing inactivity''])
             else (risk_score, risk_factors))
      in (risk_score, risk_factors))"

definition risk_score_of :: "int \<Rightarrow> int \<Rightarrow> rat \<Rightarrow> rat \<Rightarrow> int" where
  "risk_score_of days_since_last donation_count avg_donation_frequency lifetime_value =
     fst (churn_risk_state days_since_last donation_count avg_donation_frequency lifetime_value)"

definition calculate_churn_risk_advanced ::
  "int \<Rightarrow> int \<Rightarrow> rat \<Rightarrow> rat \<Rightarrow> ChurnRisk \<times> string list" where
  "calculate_churn_risk_advanced days_since_last donation_count avg_donation_frequency lifetime_value =
     (let (risk_score, risk_factors) =
            churn_risk_state days_since_last donation_count avg_donation_frequency lifetime_value
      in if risk_score \<ge> 70 then (CRITICAL, risk_factors)
         else if risk_score \<ge> 50 then (HIGH, risk_factors)
         else if risk_score \<ge> 30 then (MEDIUM, risk_factors)
         else (LOW, risk_factors))"


text \<open>
  The rule table of the specification (section 4.3), in table order: the condition and the
  weight of each rule as the specification words them. The specification types the
  average interval as a float, so the product \<^verbatim>\<open>avg_donation_interval_days * 1.5\<close> of its
  fourth rule is the float product.
\<close>

datatype churn_rule =
  Long_inactivity | Medium_inactivity | Short_inactivity
  | Overdue_vs_pattern | Thin_history | High_value_inactivity

definition churn_rules_spec :: "churn_rule list" where
  "churn_rules_spec =
     [Long_inactivity, Medium_inactivity, Short_inactivity,
      Overdue_vs_pattern, Thin_history, High_value_inactivity]"

fun rule_condition_spec :: "churn_rule \<Rightarrow> int \<Rightarrow> int \<Rightarrow> rat \<Rightarrow> rat \<Rightarrow> bool" where
  "rule_condition_spec Long_inactivity d n a v = (d \<ge> 365)"
| "rule_condition_spec Medium_inactivity d n a v = (180 \<le> d \<and> d < 365)"
| "rule_condition_spec Short_inactivity d n a v = (90 \<le> d \<and> d < 180)"
| "rule_condition_spec Overdue_vs_pattern d n a v = (a > 0 \<and> int_gt_float d (float_mul a 1.5))"
| "rule_condition_spec Thin_history d n a v = (n < 3)"
| "rule_condition_spec High_value_inactivity d n a v = (v \<ge> 5000 \<and> d \<ge> 180)"

fun rule_weight_spec :: "churn_rule \<Rightarrow> int" where
  "rule_weight_spec Long_inactivity = 40"
| "rule_weight_spec Medium_inactivity = 20"
| "rule_weight_spec Short_inactivity = 10"
| "rule_weight_spec Overdue_vs_pattern = 25"
| "rule_weight_spec Thin_history = 15"
| "rule_weight_spec High_value_inactivity = 20"

definition triggered_rules_spec :: "int \<Rightarrow> int \<Rightarrow> rat \<Rightarrow> rat \<Rightarrow> churn_rule list" where
  "triggered_rules_spec d n a v = filter (\<lambda>r. rule_condition_spec r d n a v) churn_rules_spec"

definition risk_tier_spec :: "int \<Rightarrow> ChurnRisk" where
  "risk_tier_spec score =
     (if score \<ge> 70 then CRITICAL else if score \<ge> 50 then HIGH
      else if score \<ge> 30 then MEDIUM else LOW)"

text \<open>The factor string that the source appends for each rule of the table.\<close>

fun rule_factor :: "int \<Rightarrow> churn_rule \<Rightarrow> string" where
  "rule_factor d Long_inactivity = ''No donation in '' @ str_int d @ '' days (12+ months)''"
| "rule_factor d Medium_inactivity = ''No donation in '' @ str_int d @ '' days (6+ months)''"
| "rule_factor d Short_inactivity = ''No donation in '' @ str_int d @ '' days (3+ months)''"
| "rule_factor d Overdue_vs_pattern = ''Overdue based on donation pattern''"
| "rule_factor d Thin_history = ''Limited giving history (< 3 donations)''"
| "rule_factor d High_value_inactivity = ''High-value donor showing inactivity''"

text \<open>An inactivity-band factor is one of the three strings that start the same way.\<close>

definition is_inactivity_factor :: "string \<Rightarrow> bool" where
  "is_inactivity_factor s = (take 15 s = ''No donation in '')"

subsection \<open>The action recommender\<close>

definition get_recommended_action_advanced :: "ChurnRisk \<Rightarrow> LifecycleStageEnum \<Rightarrow> string" where
  "get_recommended_action_advanced risk_level stage =
     (case map_of
        [((CRITICAL, MAJOR), ''URGENT: Personal call from Executive Director within 48 hours''),
         ((CRITICAL, REPEAT), ''High-touch re-engagement campaign, offer exclusive event invite''),
         ((HIGH, MAJOR), ''Schedule coffee meeting, share insider updates''),
         ((HIGH, REPEAT), ''Multi-channel re-engagement, highlight recent impact''),
         ((MEDIUM, REPEAT), ''Include in next newsletter, light touch'')]
        (risk_level, stage) of
        Some action \<Rightarrow> action
      | None \<Rightarrow> ''Standard stewardship communication'')"

subsection \<open>Dates: the day count of a difference\<close>

text \<open>
  \<^verbatim>\<open>(a - b).days\<close> of two naive datetimes: Python normalises a \<^verbatim>\<open>timedelta\<close> so that
  its seconds and microseconds are non-negative, hence \<^verbatim>\<open>days\<close> is the floor of the
  difference in days. Day numbers are the proleptic Gregorian ordinals of \<^verbatim>\<open>toordinal\<close>.
\<close>

definition is_leap :: "int \<Rightarrow> bool" where
  "is_leap y = (if y mod 400 = 0 then True else if y mod 100 = 0 then False else y mod 4 = 0)"

definition days_in_month :: "int \<Rightarrow> int \<Rightarrow> int" where
  "days_in_month y m =
     (if m = 2 then (if is_leap y then 29 else 28)
      else if m = 4 then 30 else if m = 6 then 30 else if m = 9 then 30
      else if m = 11 then 30 else 31)"

definition days_before_year :: "int \<Rightarrow> int" where
  "days_before_year y = (let z = y - 1 in z * 365 + z div 4 - z div 100 + z div 400)"

definition days_before_month :: "int \<Rightarrow> int \<Rightarrow> int" where
  "days_before_month y m = sum_list (map (days_in_month y) [1..m - 1])"

definition toordinal :: "datetime \<Rightarrow> int" where
  "toordinal dt = days_before_year (year dt) + days_before_month (year dt) (month dt) + day dt"

definition total_microseconds :: "datetime \<Rightarrow> int" where
  "total_microseconds dt =
     (((toordinal dt * 24 + hour dt) * 60 + minute dt) * 60 + second dt) * 1000000
       + microsecond dt"

definition timedelta_days :: "datetime \<Rightarrow> datetime \<Rightarrow> int" where
  "timedelta_days a b = (total_microseconds a - total_microseconds b) div (86400 * 1000000)"

subsection \<open>The tables of models.py that the endpoint reads\<close>

type_synonym uuid = string

text \<open>
  Each record keeps the columns of its class that the endpoint reads (and, for
  \<^verbatim>\<open>ContactPoint\<close>, every column); primary keys are unique in a table.
\<close>

record Party =
  Party_id :: uuid
  Party_organization_id :: uuid
  Party_display_name :: string

record Donation =
  Donation_id :: uuid
  Donation_party_id :: uuid
  Donation_received_date :: datetime
  Donation_intent_amount :: rat

record ContactPoint =
  ContactPoint_id :: uuid
  ContactPoint_organization_id :: uuid
  ContactPoint_party_id :: uuid
  ContactPoint_type :: string
  ContactPoint_channel :: string
  ContactPoint_value :: string
  ContactPoint_is_primary :: bool
  ContactPoint_verified_at :: "datetime option"

record database =
  parties :: "Party list"
  donations :: "Donation list"
  contact_points :: "ContactPoint list"

datatype cell = StrCell string | BoolCell bool | DateTimeCell "datetime option"

text \<open>
  Attribute access on the class \<^verbatim>\<open>models.ContactPoint\<close>: the columns that
  \<^verbatim>\<open>models.py\<close> declares; any other name raises \<^verbatim>\<open>AttributeError\<close>. (The relationship
  \<^verbatim>\<open>party\<close> is an attribute too, but not a column that a query can return as a value.)
\<close>

definition ContactPoint_getattr :: "string \<Rightarrow> error + (ContactPoint \<Rightarrow> cell)" where
  "ContactPoint_getattr name =
     (if name = ''id'' then Inr (\<lambda>cp. StrCell (ContactPoint_id cp))
      else if name = ''organization_id'' then Inr (\<lambda>cp. StrCell (ContactPoint_organization_id cp))
      else if name = ''party_id'' then Inr (\<lambda>cp. StrCell (ContactPoint_party_id cp))
      else if name = ''type'' then Inr (\<lambda>cp. StrCell (ContactPoint_type cp))
      else if name = ''channel'' then Inr (\<lambda>cp. StrCell (ContactPoint_channel cp))
      else if name = ''value'' then Inr (\<lambda>cp. StrCell (ContactPoint_value cp))
      else if name = ''is_primary'' then Inr (\<lambda>cp. BoolCell (ContactPoint_is_primary cp))
      else if name = ''verified_at'' then Inr (\<lambda>cp. DateTimeCell (ContactPoint_verified_at cp))
      else Inl AttributeError)"

subsection \<open>The donor statistics query\<close>

text \<open>
  One row per party of the organisation (outer join, grouped by the party's key), with the
  SQL aggregates over the party's donations: \<^verbatim>\<open>count\<close>, \<^verbatim>\<open>max\<close>, \<^verbatim>\<open>sum\<close> and \<^verbatim>\<open>min\<close>, the last
  three \<^verbatim>\<open>NULL\<close> on no donation. Rows come in the order of the party table.
\<close>

record donor_row =
  row_donor_id :: uuid
  row_donor_name :: string
  row_donation_count :: int
  row_last_donation_date :: "datetime option"
  row_lifetime_value :: "rat option"
  row_first_donation_date :: "datetime option"

fun sql_max :: "datetime list \<Rightarrow> datetime option" where
  "sql_max [] = None"
| "sql_max (x # xs) =
     Some (fold (\<lambda>d m. if total_microseconds d > total_microseconds m then d else m) xs x)"

fun sql_min :: "datetime list \<Rightarrow> datetime option" where
  "sql_min [] = None"
| "sql_min (x # xs) =
     Some (fold (\<lambda>d m. if total_microseconds d < total_microseconds m then d else m) xs x)"

fun sql_sum :: "rat list \<Rightarrow> rat option" where
  "sql_sum [] = None"
| "sql_sum (x # xs) = Some (sum_list (x # xs))"

definition donor_stats_query :: "database \<Rightarrow> uuid \<Rightarrow> donor_row list" where
  "donor_stats_query db org =
     map (\<lambda>p. let ds = filter (\<lambda>d. Donation_party_id d = Party_id p) (donations db) in
            \<lparr>row_donor_id = Party_id p,
             row_donor_name = Party_display_name p,
             row_donation_count = int (length ds),
             row_last_donation_date = sql_max (map Donation_received_date ds),
             row_lifetime_value = sql_sum (map Donation_intent_amount ds),
             row_first_donation_date = sql_min (map Donation_received_date ds)\<rparr>)
       (filter (\<lambda>p. Party_organization_id p = org) (parties db))"

text \<open>
  The e-mail lookup of the loop body: \<^verbatim>\<open>db.query(models.ContactPoint.contact_value)\<close>
  evaluates the attribute first, then filters by party and type and takes \<^verbatim>\<open>.first()\<close>;
  the caller reads column 0 of the row, or \<^verbatim>\<open>None\<close> on no row.
\<close>

definition email_query :: "database \<Rightarrow> uuid \<Rightarrow> error + cell option" where
  "email_query db donor =
     (case ContactPoint_getattr ''contact_value'' of
        Inl e \<Rightarrow> Inl e
      | Inr column \<Rightarrow>
          Inr (case filter (\<lambda>cp. ContactPoint_party_id cp = donor \<and> ContactPoint_type cp = ''email'')
                      (contact_points db) of
                 [] \<Rightarrow> None
               | cp # _ \<Rightarrow> Some (column cp)))"

text \<open>The cohort query: the distinct parties of the organisation with a donation received in the year.\<close>

definition cohort_donors_query :: "database \<Rightarrow> uuid \<Rightarrow> int \<Rightarrow> uuid list" where
  "cohort_donors_query db org yr =
     remdups [Party_id p. p \<leftarrow> parties db, d \<leftarrow> donations db,
              Party_id p = Donation_party_id d,
              Party_organization_id p = org,
              year (Donation_received_date d) = yr]"

subsection \<open>The response models\<close>

text \<open>The dictionary that the loop stores per donor in \<^verbatim>\<open>donors_by_stage\<close>.\<close>

record donor_entry =
  entry_donor_id :: uuid
  entry_donor_name :: string
  entry_donation_count :: int
  entry_lifetime_value :: rat
  entry_days_since_last :: int
  entry_last_donation_date :: "datetime option"
  entry_avg_frequency :: rat

record DonorLifecycleStageDetailed =
  stage :: LifecycleStageEnum
  donor_count :: int
  avg_days_in_stage :: rat
  avg_lifetime_value :: rat
  conversion_rate :: "rat option"
  churn_rate :: "rat option"

record DonorChurnRisk =
  donor_id :: uuid
  donor_name :: string
  email :: "cell option"
  last_donation_date :: "datetime option"
  days_since_last_donation :: int
  total_donations :: int
  lifetime_value :: rat
  current_stage :: LifecycleStageEnum
  risk_level :: ChurnRisk
  risk_factors :: "string list"
  recommended_action :: string

record CohortAnalysis =
  cohort_period :: string
  initial_count :: int
  retained_month_1 :: int
  retained_month_3 :: int
  retained_month_6 :: int
  retained_month_12 :: int
  retention_rate_12m :: rat
  avg_cohort_value :: rat

text \<open>The dictionary \<^verbatim>\<open>summary_metrics\<close>, which has a fixed set of keys.\<close>

record summary =
  total_donors :: int
  active_donors :: int
  at_risk_count :: int
  critical_risk_count :: int
  major_donors :: int
  lapsed_donors :: int
  lost_donors :: int
  retention_rate :: pyfloat

record LifecycleAnalyticsResponse =
  organization_id :: uuid
  snapshot_date :: datetime
  lifecycle_stages :: "DonorLifecycleStageDetailed list"
  cohort_analysis :: "CohortAnalysis list"
  at_risk_donors :: "DonorChurnRisk list"
  summary_metrics :: summary

subsection \<open>The endpoint get\_donor\_lifecycle\_analytics\<close>

text \<open>\<^verbatim>\<open>x or 0\<close> on a nullable amount: \<^verbatim>\<open>None\<close> and zero are falsy.\<close>

definition or_zero :: "rat option \<Rightarrow> rat" where
  "or_zero x = (case x of None \<Rightarrow> 0 | Some v \<Rightarrow> if v = 0 then 0 else v)"

fun risk_order :: "ChurnRisk \<Rightarrow> int" where
  "risk_order LOW = 1"
| "risk_order MEDIUM = 2"
| "risk_order HIGH = 3"
| "risk_order CRITICAL = 4"

fun risk_order_sort :: "ChurnRisk \<Rightarrow> int" where
  "risk_order_sort CRITICAL = 4"
| "risk_order_sort HIGH = 3"
| "risk_order_sort MEDIUM = 2"
| "risk_order_sort LOW = 1"

text \<open>
  \<^verbatim>\<open>donors_by_stage\<close> is a \<^verbatim>\<open>defaultdict(list)\<close>: a function from the stage to its list,
  empty by default. The loop body handles one row of the donor statistics: it files the
  donor under its stage and, when the donor is at risk, looks the e-mail up and appends
  the roster entry. An exception in the body ends the loop.
\<close>

type_synonym loop_state = "(LifecycleStageEnum \<Rightarrow> donor_entry list) \<times> DonorChurnRisk list"

definition days_since_last_of :: "datetime \<Rightarrow> donor_row \<Rightarrow> int" where
  "days_since_last_of current_date donor =
     (case row_last_donation_date donor of
        Some last_date \<Rightarrow> timedelta_days current_date last_date
      | None \<Rightarrow> 999999)"

definition avg_frequency_of :: "donor_row \<Rightarrow> error + rat" where
  "avg_frequency_of donor =
     (if row_donation_count donor > 1 then
        (case (row_first_donation_date donor, row_last_donation_date donor) of
           (Some first_date, Some last_date) \<Rightarrow>
             (let total_days = timedelta_days last_date first_date in
              if row_donation_count donor > 1
              then int_truediv total_days (row_donation_count donor - 1) else Inr 0)
         | _ \<Rightarrow> Inr 0)
      else Inr 0)"

definition process_donor ::
  "database \<Rightarrow> bool \<Rightarrow> ChurnRisk \<Rightarrow> datetime \<Rightarrow> donor_row \<Rightarrow> loop_state \<Rightarrow> error + loop_state" where
  "process_donor db include_at_risk risk_threshold current_date donor st =
     (let (donors_by_stage, at_risk) = st;
          days_since_last = days_since_last_of current_date donor
      in case avg_frequency_of donor of
           Inl e \<Rightarrow> Inl e
         | Inr avg_frequency \<Rightarrow>
     (let stg = calculate_lifecycle_stage_advanced
                  (row_donation_count donor) (row_last_donation_date donor)
                  (or_zero (row_lifetime_value donor)) days_since_last;
          donors_by_stage = donors_by_stage
            (stg := donors_by_stage stg @
               [\<lparr>entry_donor_id = row_donor_id donor,
                 entry_donor_name = row_donor_name donor,
                 entry_donation_count = row_donation_count donor,
                 entry_lifetime_value = or_zero (row_lifetime_value donor),
                 entry_days_since_last = days_since_last,
                 entry_last_donation_date = row_last_donation_date donor,
                 entry_avg_frequency = avg_frequency\<rparr>]);
          (level, factors) = calculate_churn_risk_advanced
                  days_since_last (row_donation_count donor) avg_frequency
                  (or_zero (row_lifetime_value donor))
      in if include_at_risk \<and> risk_order level \<ge> risk_order risk_threshold then
           (case email_query db (row_donor_id donor) of
              Inl e \<Rightarrow> Inl e
            | Inr email_query_result \<Rightarrow>
                Inr (donors_by_stage,
                     at_risk @
                       [\<lparr>donor_id = row_donor_id donor,
                         donor_name = row_donor_name donor,
                         email = email_query_result,
                         last_donation_date = row_last_donation_date donor,
                         days_since_last_donation = days_since_last,
                         total_donations = row_donation_count donor,
                         lifetime_value = or_zero (row_lifetime_value donor),
                         current_stage = stg,
                         risk_level = level,
                         risk_factors = factors,
                         recommended_action = get_recommended_action_advanced level stg\<rparr>]))
         else Inr (donors_by_stage, at_risk)))"

fun process_donors ::
  "database \<Rightarrow> bool \<Rightarrow> ChurnRisk \<Rightarrow> datetime \<Rightarrow> donor_row list \<Rightarrow> loop_state \<Rightarrow> error + loop_state" where
  "process_donors db include_at_risk risk_threshold current_date [] st = Inr st"
| "process_donors db include_at_risk risk_threshold current_date (donor # rest) st =
     (case process_donor db include_at_risk risk_threshold current_date donor st of
        Inl e \<Rightarrow> Inl e
      | Inr st' \<Rightarrow> process_donors db include_at_risk risk_threshold current_date rest st')"

text \<open>
  \<^verbatim>\<open>at_risk_donors.sort(key=..., reverse=True)\<close>: the list sort is stable, and with
  \<^verbatim>\<open>reverse=True\<close> it reverses the list, sorts it ascending and reverses the result. The
  key is the pair of the rank and the lifetime value, compared lexicographically. The
  response then keeps the slice \<^verbatim>\<open>[:100]\<close> of the sorted list.
\<close>

definition sort_key_at_risk :: "DonorChurnRisk \<Rightarrow> int \<times> rat" where
  "sort_key_at_risk x = (risk_order_sort (risk_level x), lifetime_value x)"

definition sort_at_risk :: "DonorChurnRisk list \<Rightarrow> DonorChurnRisk list" where
  "sort_at_risk xs = rev (sort_key sort_key_at_risk (rev xs))"

definition all_stages :: "LifecycleStageEnum list" where
  "all_stages = [PROSPECT, FIRST_TIME, REPEAT, MAJOR, LAPSED, LOST]"

text \<open>
  The metrics of one stage. The two averages are reported figures that none of the
  properties below reads; they are computed on exact rationals, without the rounding of
  the float sum and quotient.
\<close>

definition stage_metrics ::
  "(LifecycleStageEnum \<Rightarrow> donor_entry list) \<Rightarrow> LifecycleStageEnum \<Rightarrow> DonorLifecycleStageDetailed" where
  "stage_metrics donors_by_stage stg =
     (let donors_in_stage = donors_by_stage stg;
          (avg_ltv, avg_days) =
            (if donors_in_stage \<noteq> [] then
               (sum_list (map entry_lifetime_value donors_in_stage) / of_nat (length donors_in_stage),
                of_int (sum_list (map entry_days_since_last donors_in_stage))
                  / of_nat (length donors_in_stage))
             else (0, 0))
      in \<lparr>stage = stg,
          donor_count = int (length donors_in_stage),
          avg_days_in_stage = py_round avg_days 1,
          avg_lifetime_value = py_round avg_ltv 2,
          conversion_rate = None,
          churn_rate = None\<rparr>)"

definition cohort_entries :: "database \<Rightarrow> uuid \<Rightarrow> int \<Rightarrow> CohortAnalysis list" where
  "cohort_entries db org yr =
     (let cohort_donors = cohort_donors_query db org yr;
          count = int (length cohort_donors)
      in if count > 0 then
           [\<lparr>cohort_period = str_int yr,
             initial_count = count,
             retained_month_1 = 0,
             retained_month_3 = 0,
             retained_month_6 = 0,
             retained_month_12 = 0,
             retention_rate_12m = 0,
             avg_cohort_value = 0\<rparr>]
         else [])"

definition cohort_analysis_of :: "database \<Rightarrow> uuid \<Rightarrow> datetime \<Rightarrow> CohortAnalysis list" where
  "cohort_analysis_of db org current_date =
     concat (map (cohort_entries db org) [year current_date - 2..year current_date])"

text \<open>
  The value of the key \<^verbatim>\<open>retention_rate\<close>:
  \<^verbatim>\<open>round(active_donors / total_donors * 100, 1) if total_donors > 0 else 0\<close>.
\<close>

definition retention_rate_of :: "int \<Rightarrow> int \<Rightarrow> error + pyfloat" where
  "retention_rate_of n_active n_total =
     (if n_total > 0 then
        (case int_truediv n_active n_total of
           Inl e \<Rightarrow> Inl e
         | Inr q \<Rightarrow> float_round (float_mul q 100) 1)
      else Inr (Finite 0))"

definition summary_of ::
  "(LifecycleStageEnum \<Rightarrow> donor_entry list) \<Rightarrow> DonorChurnRisk list \<Rightarrow> error + summary" where
  "summary_of donors_by_stage at_risk =
     (let total = int (sum_list (map (\<lambda>s. length (donors_by_stage s)) all_stages));
          active = int (length (donors_by_stage REPEAT)) + int (length (donors_by_stage MAJOR))
      in case retention_rate_of active total of
           Inl e \<Rightarrow> Inl e
         | Inr rate \<Rightarrow>
             Inr \<lparr>total_donors = total,
                  active_donors = active,
                  at_risk_count = int (length at_risk),
                  critical_risk_count = int (length (filter (\<lambda>d. risk_level d = CRITICAL) at_risk)),
                  major_donors = int (length (donors_by_stage MAJOR)),
                  lapsed_donors = int (length (donors_by_stage LAPSED)),
                  lost_donors = int (length (donors_by_stage LOST)),
                  retention_rate = rate\<rparr>)"

text \<open>
  The endpoint. \<^verbatim>\<open>current_date\<close> is the value that the source reads from
  \<^verbatim>\<open>datetime.utcnow()\<close> on entry.
\<close>

definition get_donor_lifecycle_analytics ::
  "uuid \<Rightarrow> bool \<Rightarrow> ChurnRisk \<Rightarrow> database \<Rightarrow> datetime \<Rightarrow> error + LifecycleAnalyticsResponse" where
  "get_donor_lifecycle_analytics org include_at_risk risk_threshold db current_date =
     (case process_donors db include_at_risk risk_threshold current_date
             (donor_stats_query db org) (\<lambda>_. [], []) of
        Inl e \<Rightarrow> Inl e
      | Inr (donors_by_stage, at_risk) \<Rightarrow>
          (let at_risk = sort_at_risk at_risk in
           case summary_of donors_by_stage at_risk of
             Inl e \<Rightarrow> Inl e
           | Inr summary_dict \<Rightarrow>
               Inr \<lparr>organization_id = org,
                    snapshot_date = current_date,
                    lifecycle_stages = map (stage_metrics donors_by_stage) all_stages,
                    cohort_analysis = cohort_analysis_of db org current_date,
                    at_risk_donors = take 100 at_risk,
                    summary_metrics = summary_dict\<rparr>))"

subsection \<open>Notions used to state the properties\<close>

text \<open>
  The tier that the loop body computes for a row, and whether the row enters the at-risk
  list under a threshold.
\<close>

definition risk_level_of :: "datetime \<Rightarrow> donor_row \<Rightarrow> error + ChurnRisk" where
  "risk_level_of current_date donor =
     (case avg_frequency_of donor of
        Inl e \<Rightarrow> Inl e
      | Inr avg_frequency \<Rightarrow>
          Inr (fst (calculate_churn_risk_advanced (days_since_last_of current_date donor)
                      (row_donation_count donor) avg_frequency
                      (or_zero (row_lifetime_value donor)))))"

definition qualifies :: "ChurnRisk \<Rightarrow> datetime \<Rightarrow> donor_row \<Rightarrow> bool" where
  "qualifies risk_threshold current_date donor =
     (case risk_level_of current_date donor of
        Inl e \<Rightarrow> False
      | Inr level \<Rightarrow> risk_order level \<ge> risk_order risk_threshold)"

text \<open>
  The distinct parties of an organisation that have some donation received in a year, and
  the cohort entry that the endpoint builds for a year and a count.
\<close>

definition gave_in_year :: "database \<Rightarrow> int \<Rightarrow> uuid \<Rightarrow> bool" where
  "gave_in_year db yr party =
     list_ex (\<lambda>d. Donation_party_id d = party \<and> year (Donation_received_date d) = yr)
       (donations db)"

definition donors_of_year :: "database \<Rightarrow> uuid \<Rightarrow> int \<Rightarrow> uuid list" where
  "donors_of_year db org yr =
     remdups (map Party_id
       (filter (\<lambda>p. Party_organization_id p = org \<and> gave_in_year db yr (Party_id p))
          (parties db)))"

definition cohort_bucket :: "int \<Rightarrow> int \<Rightarrow> CohortAnalysis" where
  "cohort_bucket yr initial =
     \<lparr>cohort_period = str_int yr,
      initial_count = initial,
      retained_month_1 = 0,
      retained_month_3 = 0,
      retained_month_6 = 0,
      retained_month_12 = 0,
      retention_rate_12m = 0,
      avg_cohort_value = 0\<rparr>"

subsection \<open>Example data\<close>

definition midnight :: "int \<Rightarrow> int \<Rightarrow> int \<Rightarrow> datetime" where
  "midnight y m d =
     \<lparr>year = y, month = m, day = d, hour = 0, minute = 0, second = 0, microsecond = 0\<rparr>"

text \<open>
  An organisation with two parties: Ann gave in March 2024, May 2025 and June 2025; Bob
  never gave.
\<close>

definition example_db :: database where
  "example_db =
     \<lparr>parties =
        [\<lparr>Party_id = ''p1'', Party_organization_id = ''org'', Party_display_name = ''Ann''\<rparr>,
         \<lparr>Party_id = ''p2'', Party_organization_id = ''org'', Party_display_name = ''Bob''\<rparr>],
      donations =
        [\<lparr>Donation_id = ''d1'', Donation_party_id = ''p1'',
          Donation_received_date = midnight 2024 3 1, Donation_intent_amount = 100\<rparr>,
         \<lparr>Donation_id = ''d2'', Donation_party_id = ''p1'',
          Donation_received_date = midnight 2025 5 1, Donation_intent_amount = 100\<rparr>,
         \<lparr>Donation_id = ''d3'', Donation_party_id = ''p1'',
          Donation_received_date = midnight 2025 6 1, Donation_intent_amount = 100\<rparr>],
      contact_points = []\<rparr>"

definition example_now :: datetime where
  "example_now = midnight 2025 6 15"

text \<open>An organisation whose only party never gave.\<close>

definition prospect_db :: database where
  "prospect_db =
     \<lparr>parties =
        [\<lparr>Party_id = ''p1'', Party_organization_id = ''org'', Party_display_name = ''Ann''\<rparr>],
      donations = [],
      contact_points = []\<rparr>"

text \<open>Roster entries that differ in the two fields of the sort key only.\<close>

definition example_entry :: "string \<Rightarrow> ChurnRisk \<Rightarrow> rat \<Rightarrow> DonorChurnRisk" where
  "example_entry name level amount =
     \<lparr>donor_id = name,
      donor_name = name,
      email = None,
      last_donation_date = None,
      days_since_last_donation = 999999,
      total_donations = 0,
      lifetime_value = amount,
      current_stage = PROSPECT,
      risk_level = level,
      risk_factors = [],
      recommended_action = ''Standard stewardship communication''\<rparr>"

section \<open>Auxiliary facts\<close>

subsection \<open>Evaluation of the floating-point operations\<close>

lemma floor_rat_numeral [simp]:
  "\<lfloor>numeral a / numeral b :: rat\<rfloor> = numeral a div numeral b"
  using floor_divide_of_int_eq [of "numeral a" "numeral b", where ?'a = rat] by simp

lemma floor_rat_minus_numeral [simp]:
  "\<lfloor>- (numeral a / numeral b) :: rat\<rfloor> = - numeral a div numeral b"
  using floor_divide_of_int_eq [of "- numeral a" "numeral b", where ?'a = rat] by simp

lemma floor_rat_one_numeral [simp]:
  "\<lfloor>1 / numeral b :: rat\<rfloor> = 1 div numeral b"
  using floor_divide_of_int_eq [of 1 "numeral b", where ?'a = rat] by simp

lemmas float_defs = round_to_double_def float_mul_def int_truediv_def float_round_def py_round_def
  pow2_def round_half_even_def floor_log2.simps Let_def

lemmas date_defs = timedelta_days_def total_microseconds_def toordinal_def days_before_year_def
  days_before_month_def days_in_month_def is_leap_def midnight_def upto.simps

lemmas endpoint_defs = get_donor_lifecycle_analytics_def donor_stats_query_def process_donor_def
  days_since_last_of_def avg_frequency_of_def
  calculate_lifecycle_stage_advanced_def calculate_churn_risk_advanced_def churn_risk_state_def
  or_zero_def email_query_def ContactPoint_getattr_def summary_of_def retention_rate_of_def
  all_stages_def sort_at_risk_def

text \<open>The exponent that \<^const>\<open>floor_log2\<close> returns is the binary exponent of its argument.\<close>

lemma pow2_power_int: "pow2 e = 2 powi e"
  unfolding pow2_def power_int_def by (simp add: field_simps)

lemma pow2_Suc: "pow2 (e + 1) = 2 * pow2 e"
  unfolding pow2_power_int by (simp add: power_int_add)

lemma pow2_pred: "2 * pow2 (e - 1) = pow2 e"
  using pow2_Suc [of "e - 1"] by simp

lemma floor_log2_bounds:
  "0 < x \<Longrightarrow> pow2 (floor_log2 x) \<le> x \<and> x < pow2 (floor_log2 x + 1)"
proof (induction x rule: floor_log2.induct)
  case (1 x)
  show ?case
  proof (cases "x \<ge> 2")
    case True
    then have ih: "pow2 (floor_log2 (x / 2)) \<le> x / 2 \<and> x / 2 < pow2 (floor_log2 (x / 2) + 1)"
      using 1 by simp
    have eq: "floor_log2 x = floor_log2 (x / 2) + 1"
      using True by (subst floor_log2.simps) simp
    have "pow2 (floor_log2 (x / 2) + 1) \<le> x" "x < pow2 (floor_log2 (x / 2) + 1 + 1)"
      using ih pow2_Suc [of "floor_log2 (x / 2)"] pow2_Suc [of "floor_log2 (x / 2) + 1"] by simp_all
    then show ?thesis unfolding eq by simp
  next
    case False
    note nge = this
    show ?thesis
    proof (cases "x < 1")
      case True
      then have ih: "pow2 (floor_log2 (x * 2)) \<le> x * 2 \<and> x * 2 < pow2 (floor_log2 (x * 2) + 1)"
        using 1 nge by simp
      have eq: "floor_log2 x = floor_log2 (x * 2) - 1"
        using True nge 1 by (subst floor_log2.simps) simp
      have "pow2 (floor_log2 (x * 2) - 1) \<le> x" "x < pow2 (floor_log2 (x * 2) - 1 + 1)"
        using ih pow2_pred [of "floor_log2 (x * 2)"] pow2_Suc [of "floor_log2 (x * 2)"] by simp_all
      then show ?thesis unfolding eq by simp
    next
      case False
      then have "floor_log2 x = 0" using nge 1 by (subst floor_log2.simps) simp
      then show ?thesis using False nge by (simp add: pow2_def)
    qed
  qed
qed

text \<open>
  Two values of the arithmetic: the float quotient \<^verbatim>\<open>182 / 3\<close> is
  \<open>8538074293556565 / 2 ^ 47\<close>, just below \<open>182 / 3\<close>, and its float product with
  \<^verbatim>\<open>1.5\<close> is \<^verbatim>\<open>91.0\<close>, although the exact product is below 91.
\<close>

lemma int_truediv_182_3: "int_truediv 182 3 = Inr (8538074293556565 / 2 ^ 47)"
  by (simp add: float_defs)

lemma float_mul_rounds_to_91:
  "float_mul (8538074293556565 / 2 ^ 47) 1.5 = Finite 91
   \<and> (8538074293556565 / 2 ^ 47) * 1.5 < (91::rat)"
  by (simp add: float_defs)

lemma int_gt_float_mono: "int_gt_float d1 e \<Longrightarrow> d1 \<le> d2 \<Longrightarrow> int_gt_float d2 e"
  by (cases e) auto

subsection \<open>The loop, the sort and the cohort query\<close>

lemma sort_at_risk_descending:
  "sorted_wrt (\<lambda>x y. sort_key_at_risk x \<ge> sort_key_at_risk y) (sort_at_risk xs)"
proof -
  have "sorted (map sort_key_at_risk (sort_key sort_key_at_risk (rev xs)))" by simp
  then have "sorted_wrt (\<lambda>x y. sort_key_at_risk x \<le> sort_key_at_risk y)
               (sort_key sort_key_at_risk (rev xs))"
    by (simp add: sorted_map)
  then show ?thesis unfolding sort_at_risk_def by (simp add: sorted_wrt_rev)
qed

lemma endpoint_Inr:
  assumes "get_donor_lifecycle_analytics org inc thr db now = Inr rep"
  obtains dbs ar sm where
    "process_donors db inc thr now (donor_stats_query db org) (\<lambda>_. [], []) = Inr (dbs, ar)"
    "summary_of dbs (sort_at_risk ar) = Inr sm"
    "rep = \<lparr>organization_id = org, snapshot_date = now,
            lifecycle_stages = map (stage_metrics dbs) all_stages,
            cohort_analysis = cohort_analysis_of db org now,
            at_risk_donors = take 100 (sort_at_risk ar),
            summary_metrics = sm\<rparr>"
  using assms unfolding get_donor_lifecycle_analytics_def
  by (auto simp: Let_def split: sum.splits prod.splits)

lemma process_donor_raises:
  "inc \<Longrightarrow> qualifies thr now donor \<Longrightarrow> process_donor db inc thr now donor st = Inl AttributeError"
  unfolding process_donor_def qualifies_def risk_level_of_def email_query_def ContactPoint_getattr_def
  by (auto simp: Let_def split: prod.splits sum.splits)

lemma process_donors_raises:
  "inc \<Longrightarrow> list_ex (qualifies thr now) rows \<Longrightarrow> \<exists>e. process_donors db inc thr now rows st = Inl e"
proof (induction rows arbitrary: st)
  case Nil
  then show ?case by simp
next
  case (Cons r rows)
  show ?case
  proof (cases "process_donor db inc thr now r st")
    case (Inl e)
    then show ?thesis by simp
  next
    case (Inr st')
    with Cons.prems process_donor_raises [of inc thr now r db st] have "\<not> qualifies thr now r"
      by auto
    with Cons.prems have "list_ex (qualifies thr now) rows" by simp
    with Cons.IH [of st'] Cons.prems Inr show ?thesis by simp
  qed
qed

text \<open>
  Whenever the at-risk roster is asked for and some donor of the organisation reaches the
  threshold, the endpoint raises instead of returning a report.
\<close>

lemma endpoint_raises:
  "inc \<Longrightarrow> list_ex (qualifies thr now) (donor_stats_query db org) \<Longrightarrow>
   \<exists>e. get_donor_lifecycle_analytics org inc thr db now = Inl e"
  using process_donors_raises [of inc thr now "donor_stats_query db org" db "(\<lambda>_. [], [])"]
  by (auto simp: get_donor_lifecycle_analytics_def)

lemma mem_cohort_donors_query:
  "x \<in> set (cohort_donors_query db org yr) \<longleftrightarrow>
     (\<exists>p\<in>set (parties db). \<exists>d\<in>set (donations db).
        x = Party_id p \<and> Party_id p = Donation_party_id d
        \<and> Party_organization_id p = org \<and> year (Donation_received_date d) = yr)"
  unfolding cohort_donors_query_def by (force split: if_splits)

lemma mem_donors_of_year:
  "x \<in> set (donors_of_year db org yr) \<longleftrightarrow>
     (\<exists>p\<in>set (parties db). \<exists>d\<in>set (donations db).
        x = Party_id p \<and> Party_id p = Donation_party_id d
        \<and> Party_organization_id p = org \<and> year (Donation_received_date d) = yr)"
proof
  assume "x \<in> set (donors_of_year db org yr)"
  then obtain p where p: "p \<in> set (parties db)" "x = Party_id p" "Party_organization_id p = org"
      "gave_in_year db yr (Party_id p)"
    unfolding donors_of_year_def by auto
  from p(4) obtain d where d: "d \<in> set (donations db)" "Donation_party_id d = Party_id p"
      "year (Donation_received_date d) = yr"
    unfolding gave_in_year_def list_ex_iff by blast
  show "\<exists>p\<in>set (parties db). \<exists>d\<in>set (donations db).
        x = Party_id p \<and> Party_id p = Donation_party_id d
        \<and> Party_organization_id p = org \<and> year (Donation_received_date d) = yr"
    using p d by (intro bexI [of _ p] bexI [of _ d]) simp_all
next
  assume "\<exists>p\<in>set (parties db). \<exists>d\<in>set (donations db).
        x = Party_id p \<and> Party_id p = Donation_party_id d
        \<and> Party_organization_id p = org \<and> year (Donation_received_date d) = yr"
  then obtain p d where pd: "p \<in> set (parties db)" "d \<in> set (donations db)" "x = Party_id p"
      "Party_id p = Donation_party_id d" "Party_organization_id p = org"
      "year (Donation_received_date d) = yr" by blast
  then have "gave_in_year db yr (Party_id p)"
    unfolding gave_in_year_def list_ex_iff by (intro bexI [of _ d]) simp_all
  with pd have "p \<in> set (filter (\<lambda>p. Party_organization_id p = org \<and> gave_in_year db yr (Party_id p))
                         (parties db))"
    by simp
  then have "Party_id p \<in> Party_id ` set (filter (\<lambda>p. Party_organization_id p = org
                  \<and> gave_in_year db yr (Party_id p)) (parties db))"
    by (rule imageI)
  then show "x \<in> set (donors_of_year db org yr)"
    unfolding donors_of_year_def using pd(3) by simp
qed

lemma cohort_set: "set (cohort_donors_query db org yr) = set (donors_of_year db org yr)"
  by (rule set_eqI) (simp only: mem_cohort_donors_query mem_donors_of_year)

lemma cohort_len: "length (cohort_donors_query db org yr) = length (donors_of_year db org yr)"
proof -
  have "distinct (cohort_donors_query db org yr)" "distinct (donors_of_year db org yr)"
    unfolding cohort_donors_query_def donors_of_year_def by simp_all
  then show ?thesis using cohort_set [of db org yr] by (metis distinct_card)
qed

lemma cohort_nil: "cohort_donors_query db org yr = [] \<longleftrightarrow> donors_of_year db org yr = []"
  using cohort_set [of db org yr] by (metis set_empty)

lemma cohort_entries_eq:
  "cohort_entries db org yr =
     (if donors_of_year db org yr \<noteq> []
      then [cohort_bucket yr (int (length (donors_of_year db org yr)))] else [])"
  unfolding cohort_entries_def cohort_bucket_def
  by (simp add: Let_def cohort_len cohort_nil)

lemma concat_map_if: "concat (map (\<lambda>y. if P y then [f y] else []) ys) = map f (filter P ys)"
  by (induction ys) auto

lemma cohort_analysis_eq:
  "cohort_analysis_of db org now =
     map (\<lambda>yr. cohort_bucket yr (int (length (donors_of_year db org yr))))
       (filter (\<lambda>yr. donors_of_year db org yr \<noteq> []) [year now - 2..year now])"
  unfolding cohort_analysis_of_def
  by (simp add: cohort_entries_eq [abs_def] concat_map_if)

lemma example_report_returned:
  "\<exists>rep. get_donor_lifecycle_analytics ''org'' False MEDIUM example_db example_now = Inr rep"
  by (simp add: endpoint_defs float_defs date_defs example_db_def example_now_def)

section \<open>Properties of the classifier\<close>

text \<open>
  C1. On every donor aggregate the classifier returns the stage that the specification's
  ordered first-match rules give: no donation is a prospect; one donation is lost after
  more than 365 days and first-time otherwise; then 730 days or more is lost, 365 days or
  more is lapsed, a lifetime value of 5000 or more is major, and the rest is repeat.
\<close>

theorem lifecycle_stage_matches_spec:
  "calculate_lifecycle_stage_advanced n l v d = lifecycle_stage_spec n d v"
  by (simp add: calculate_lifecycle_stage_advanced_def lifecycle_stage_spec_def)

text \<open>
  C3, as the specification states it, fails on a donor without donations: the first rule
  answers before the recency is looked at.
\<close>

theorem lost_regardless_of_count_counterexample:
  "(999999::int) \<ge> 730 \<and> calculate_lifecycle_stage_advanced 0 None 0 999999 = PROSPECT
     \<and> calculate_lifecycle_stage_advanced 0 None 0 999999 \<noteq> LOST"
  by (simp add: calculate_lifecycle_stage_advanced_def)

text \<open>
  C3, amended. For every donor aggregate with at least 730 days since the last donation the
  stage is never lapsed, whatever the lifetime value and the donation count are; it is
  lost when the donation count is not zero (one donation included), and prospect when the
  donation count is zero.
\<close>

theorem lost_after_730_days:
  "d \<ge> 730 \<Longrightarrow>
     calculate_lifecycle_stage_advanced n l v d \<noteq> LAPSED
     \<and> (n \<noteq> 0 \<longrightarrow> calculate_lifecycle_stage_advanced n l v d = LOST)
     \<and> (n = 0 \<longrightarrow> calculate_lifecycle_stage_advanced n l v d = PROSPECT)"
  by (simp add: calculate_lifecycle_stage_advanced_def)

theorem lost_after_730_days_witness:
  "(730::int) \<ge> 730 \<and> (1::int) \<noteq> 0
     \<and> calculate_lifecycle_stage_advanced 1 None 9000 730 = LOST
     \<and> calculate_lifecycle_stage_advanced 1 None 9000 730 \<noteq> LAPSED"
  using lost_after_730_days [of 730 1 None 9000] by simp

text \<open>
  C10. The stage does not depend on the argument \<open>last_donation_date\<close>: two calls that
  agree on the donation count, the lifetime value and the days since the last donation
  return the same stage, whatever the two dates are.
\<close>

theorem stage_independent_of_last_donation_date:
  "calculate_lifecycle_stage_advanced n l1 v d = calculate_lifecycle_stage_advanced n l2 v d"
  by (simp add: calculate_lifecycle_stage_advanced_def)

section \<open>Properties of the churn risk scorer\<close>

text \<open>
  The scorer compares the days with the rounded float product. At 91 days, four donations
  and the average interval \<^verbatim>\<open>182 / 3\<close> the product is \<^verbatim>\<open>91.0\<close>, so the donor is not overdue
  and the tier is low with the one inactivity factor.
\<close>

lemma scorer_at_rounded_product:
  "calculate_churn_risk_advanced 91 4 (8538074293556565 / 2 ^ 47) 0 =
     (LOW, [''No donation in 91 days (3+ months)''])"
  by (simp add: calculate_churn_risk_advanced_def churn_risk_state_def float_defs
      str_int_def str_nat.simps digit_char_def)

text \<open>
  C2. For every input the score is the sum of the weights of exactly the rules of the
  specification's table that are triggered, the factor list holds one string per
  triggered rule in table order, and the tier is critical from 70, high from 50, medium
  from 30 and low below. The average interval is a float, and the product of the fourth
  rule is the float product, on the side of the table as in the scorer.
\<close>

theorem churn_risk_matches_rule_table:
  "risk_score_of d n a v = sum_list (map rule_weight_spec (triggered_rules_spec d n a v))
   \<and> calculate_churn_risk_advanced d n a v =
       (risk_tier_spec (risk_score_of d n a v), map (rule_factor d) (triggered_rules_spec d n a v))"
  unfolding risk_score_of_def calculate_churn_risk_advanced_def churn_risk_state_def
    triggered_rules_spec_def churn_rules_spec_def risk_tier_spec_def
  by (auto simp: Let_def)

text \<open>
  C4. With the donation count, the average interval and the lifetime value fixed, the
  score does not decrease when the days since the last donation increase; the band
  boundaries 89 to 90, 179 to 180 and 364 to 365 are instances.
\<close>

theorem risk_score_monotone_in_days:
  "d1 \<le> d2 \<Longrightarrow> risk_score_of d1 n a v \<le> risk_score_of d2 n a v"
  unfolding risk_score_of_def churn_risk_state_def
  by (auto simp: Let_def dest: int_gt_float_mono split: if_splits)

theorem risk_score_monotone_in_days_witness:
  "(179::int) \<le> 180 \<and> risk_score_of 179 3 0 6000 = 10 \<and> risk_score_of 180 3 0 6000 = 40
     \<and> risk_score_of 179 3 0 6000 \<le> risk_score_of 180 3 0 6000"
  using risk_score_monotone_in_days [of 179 180 3 0 6000]
  by (simp add: risk_score_of_def churn_risk_state_def)

text \<open>
  C9. The score never exceeds 100, the factor list has at most four entries, and at most
  one of them is an inactivity-band factor.
\<close>

theorem risk_score_and_factors_bounded:
  "risk_score_of d n a v \<le> 100
   \<and> length (snd (calculate_churn_risk_advanced d n a v)) \<le> 4
   \<and> length (filter is_inactivity_factor (snd (calculate_churn_risk_advanced d n a v))) \<le> 1"
  unfolding risk_score_of_def calculate_churn_risk_advanced_def churn_risk_state_def
    is_inactivity_factor_def
  by (auto simp: Let_def split: if_splits)

section \<open>Properties of the report\<close>

text \<open>
  C5. The roster of a report is the first 100 entries of the sorted at-risk list. In it,
  for every adjacent pair the tier of the first entry is at least the tier of the second
  in the order low, medium, high, critical, and when the tiers are equal the lifetime
  value of the first entry is at least that of the second. The property is stated of the
  sort and the slice, for every list that the loop may hand to them.
\<close>

theorem at_risk_roster_sorted:
  "Suc i < length (take 100 (sort_at_risk xs)) \<Longrightarrow>
     risk_order_sort (risk_level (take 100 (sort_at_risk xs) ! i))
       \<ge> risk_order_sort (risk_level (take 100 (sort_at_risk xs) ! Suc i))
     \<and> (risk_level (take 100 (sort_at_risk xs) ! i) = risk_level (take 100 (sort_at_risk xs) ! Suc i)
          \<longrightarrow> lifetime_value (take 100 (sort_at_risk xs) ! i)
                \<ge> lifetime_value (take 100 (sort_at_risk xs) ! Suc i))"
proof -
  assume h: "Suc i < length (take 100 (sort_at_risk xs))"
  let ?r = "take 100 (sort_at_risk xs)"
  have "sorted_wrt (\<lambda>x y. sort_key_at_risk x \<ge> sort_key_at_risk y) ?r"
    using sort_at_risk_descending by (rule sorted_wrt_take)
  then have "sort_key_at_risk (?r ! i) \<ge> sort_key_at_risk (?r ! Suc i)"
    using h by (simp add: sorted_wrt_iff_nth_less)
  then show ?thesis
    by (auto simp: sort_key_at_risk_def less_eq_prod_def)
qed

theorem at_risk_roster_sorted_witness:
  "Suc 1 < length (take 100 (sort_at_risk
       [example_entry ''a'' MEDIUM 50, example_entry ''b'' CRITICAL 10, example_entry ''c'' MEDIUM 70]))
   \<and> map donor_id (take 100 (sort_at_risk
       [example_entry ''a'' MEDIUM 50, example_entry ''b'' CRITICAL 10, example_entry ''c'' MEDIUM 70]))
       = [''b'', ''c'', ''a'']
   \<and> lifetime_value (take 100 (sort_at_risk
       [example_entry ''a'' MEDIUM 50, example_entry ''b'' CRITICAL 10, example_entry ''c'' MEDIUM 70]) ! 1)
     \<ge> lifetime_value (take 100 (sort_at_risk
       [example_entry ''a'' MEDIUM 50, example_entry ''b'' CRITICAL 10, example_entry ''c'' MEDIUM 70]) ! Suc 1)"
proof -
  have s: "sort_at_risk
       [example_entry ''a'' MEDIUM 50, example_entry ''b'' CRITICAL 10, example_entry ''c'' MEDIUM 70]
     = [example_entry ''b'' CRITICAL 10, example_entry ''c'' MEDIUM 70, example_entry ''a'' MEDIUM 50]"
    by (simp add: sort_at_risk_def sort_key_at_risk_def example_entry_def less_eq_prod_def)
  show ?thesis
    using at_risk_roster_sorted [of 1
        "[example_entry ''a'' MEDIUM 50, example_entry ''b'' CRITICAL 10, example_entry ''c'' MEDIUM 70]"]
    unfolding s by (simp add: example_entry_def)
qed

text \<open>
  C6 does not hold of the code. With the default parameters (the roster asked for, the
  threshold medium) and an organisation whose only party never gave, the donor has the
  tier high, which is at or above the threshold, so the donor qualifies and fewer than 100
  donors do; the loop then evaluates \<^verbatim>\<open>models.ContactPoint.contact_value\<close>, an attribute
  that the class does not have (the column is \<^verbatim>\<open>value\<close>), and the endpoint raises
  \<^verbatim>\<open>AttributeError\<close> instead of returning a report with the donor in the roster.
\<close>

theorem at_risk_donor_raises_attribute_error:
  "map (risk_level_of example_now) (donor_stats_query prospect_db ''org'') = [Inr HIGH]
   \<and> map (qualifies MEDIUM example_now) (donor_stats_query prospect_db ''org'') = [True]
   \<and> get_donor_lifecycle_analytics ''org'' True MEDIUM prospect_db example_now = Inl AttributeError"
  by (simp add: endpoint_defs date_defs prospect_db_def example_now_def qualifies_def
      risk_level_of_def Let_def)

text \<open>
  C7, as the specification states it, fails: Ann gave first in 2024 and again in 2025, and
  the report counts her in the bucket of 2024 and in the bucket of 2025.
\<close>

theorem cohort_by_first_donation_counterexample:
  "map_sum id (map initial_count \<circ> cohort_analysis)
      (get_donor_lifecycle_analytics ''org'' False MEDIUM example_db example_now) = Inr [1, 1]
   \<and> map_sum id (map cohort_period \<circ> cohort_analysis)
      (get_donor_lifecycle_analytics ''org'' False MEDIUM example_db example_now)
        = Inr [''2024'', ''2025'']
   \<and> cohort_donors_query example_db ''org'' 2024 = [''p1'']
   \<and> cohort_donors_query example_db ''org'' 2025 = [''p1'']
   \<and> map row_first_donation_date (donor_stats_query example_db ''org'')
        = [Some (midnight 2024 3 1), None]"
  by (simp add: endpoint_defs float_defs date_defs example_db_def example_now_def
      cohort_analysis_of_def cohort_entries_def cohort_donors_query_def
      str_int_def str_nat.simps digit_char_def)

text \<open>
  C7, amended. The cohort analysis of a report has one bucket for each of the last three
  calendar years, the current year included, in which some donor of the organisation gave,
  in ascending order of the year; the bucket's initial count is the number of distinct
  donors of the organisation with at least one donation received in that year, and its
  other figures are zero. A donor who gave in several of the years is counted in each.
\<close>

theorem cohort_analysis_by_donation_year:
  "get_donor_lifecycle_analytics org inc thr db now = Inr rep \<Longrightarrow>
     cohort_analysis rep =
       map (\<lambda>yr. cohort_bucket yr (int (length (donors_of_year db org yr))))
         (filter (\<lambda>yr. donors_of_year db org yr \<noteq> []) [year now - 2..year now])"
  by (erule endpoint_Inr) (simp add: cohort_analysis_eq)

theorem cohort_analysis_by_donation_year_witness:
  "\<exists>rep. get_donor_lifecycle_analytics ''org'' False MEDIUM example_db example_now = Inr rep
     \<and> cohort_analysis rep = [cohort_bucket 2024 1, cohort_bucket 2025 1]
     \<and> donors_of_year example_db ''org'' 2023 = []
     \<and> donors_of_year example_db ''org'' 2024 = [''p1'']
     \<and> donors_of_year example_db ''org'' 2025 = [''p1'']"
proof -
  obtain rep where h:
      "get_donor_lifecycle_analytics ''org'' False MEDIUM example_db example_now = Inr rep"
    using example_report_returned by blast
  have "cohort_analysis rep = [cohort_bucket 2024 1, cohort_bucket 2025 1]"
    using cohort_analysis_by_donation_year [OF h]
    by (simp add: donors_of_year_def gave_in_year_def example_db_def example_now_def
        midnight_def upto.simps)
  moreover have "donors_of_year example_db ''org'' 2023 = []"
      "donors_of_year example_db ''org'' 2024 = [''p1'']"
      "donors_of_year example_db ''org'' 2025 = [''p1'']"
    by (simp_all add: donors_of_year_def gave_in_year_def example_db_def midnight_def)
  ultimately show ?thesis using h by simp
qed

text \<open>
  C8, as the specification states it, fails: with one active donor of two the report gives
  the retention rate 50, not one half.
\<close>

theorem retention_rate_is_fraction_counterexample:
  "map_sum id (\<lambda>rep. (active_donors (summary_metrics rep), total_donors (summary_metrics rep),
                       retention_rate (summary_metrics rep)))
      (get_donor_lifecycle_analytics ''org'' False MEDIUM example_db example_now)
     = Inr (1, 2, Finite 50)
   \<and> (50::rat) \<noteq> 1 / 2"
  by (simp add: endpoint_defs float_defs date_defs example_db_def example_now_def)

text \<open>
  C8, amended. In every report the total is the sum of the six stage counts, the active
  donors are the sum of the repeat and major stage counts, and the retention rate is the
  percentage \<^verbatim>\<open>round(active_donors / total_donors * 100, 1)\<close> in float arithmetic when the
  total is positive; it is 0 when the total is 0.
\<close>

theorem retention_rate_is_rounded_percentage:
  "get_donor_lifecycle_analytics org inc thr db now = Inr rep \<Longrightarrow>
     map stage (lifecycle_stages rep) = [PROSPECT, FIRST_TIME, REPEAT, MAJOR, LAPSED, LOST]
     \<and> total_donors (summary_metrics rep) = sum_list (map donor_count (lifecycle_stages rep))
     \<and> active_donors (summary_metrics rep)
         = donor_count (lifecycle_stages rep ! 2) + donor_count (lifecycle_stages rep ! 3)
     \<and> (total_donors (summary_metrics rep) > 0 \<longrightarrow>
          (\<exists>q. int_truediv (active_donors (summary_metrics rep)) (total_donors (summary_metrics rep))
                  = Inr q
                \<and> float_round (float_mul q 100) 1 = Inr (retention_rate (summary_metrics rep))))
     \<and> (total_donors (summary_metrics rep) = 0 \<longrightarrow>
          retention_rate (summary_metrics rep) = Finite 0)"
proof (erule endpoint_Inr)
  fix dbs ar sm
  assume sm: "summary_of dbs (sort_at_risk ar) = Inr sm"
    and rep: "rep = \<lparr>organization_id = org, snapshot_date = now,
            lifecycle_stages = map (stage_metrics dbs) all_stages,
            cohort_analysis = cohort_analysis_of db org now,
            at_risk_donors = take 100 (sort_at_risk ar),
            summary_metrics = sm\<rparr>"
  let ?total = "int (sum_list (map (\<lambda>s. length (dbs s)) all_stages))"
  let ?active = "int (length (dbs REPEAT)) + int (length (dbs MAJOR))"
  from sm have t: "total_donors sm = ?total" and a: "active_donors sm = ?active"
    and r: "retention_rate_of ?active ?total = Inr (retention_rate sm)"
    unfolding summary_of_def by (auto simp: Let_def split: sum.splits)
  have st: "map stage (map (stage_metrics dbs) all_stages) = all_stages"
    by (simp add: all_stages_def stage_metrics_def Let_def split: prod.splits)
  have cnt: "map donor_count (map (stage_metrics dbs) all_stages)
               = map (\<lambda>s. int (length (dbs s))) all_stages"
    by (simp add: all_stages_def stage_metrics_def Let_def split: prod.splits)
  have c1: "map stage (lifecycle_stages rep) = [PROSPECT, FIRST_TIME, REPEAT, MAJOR, LAPSED, LOST]"
    using st by (simp add: rep all_stages_def)
  have c2: "total_donors (summary_metrics rep) = sum_list (map donor_count (lifecycle_stages rep))"
    using cnt t by (simp add: rep all_stages_def)
  have c3: "active_donors (summary_metrics rep)
         = donor_count (lifecycle_stages rep ! 2) + donor_count (lifecycle_stages rep ! 3)"
    using a by (simp add: rep all_stages_def stage_metrics_def Let_def split: prod.splits)
  have c4: "total_donors (summary_metrics rep) > 0 \<longrightarrow>
          (\<exists>q. int_truediv (active_donors (summary_metrics rep)) (total_donors (summary_metrics rep))
                  = Inr q
                \<and> float_round (float_mul q 100) 1 = Inr (retention_rate (summary_metrics rep)))"
    using r unfolding retention_rate_of_def t [symmetric] a [symmetric]
    by (auto simp: rep split: sum.splits if_splits)
  have c5: "total_donors (summary_metrics rep) = 0 \<longrightarrow>
          retention_rate (summary_metrics rep) = Finite 0"
    using r unfolding retention_rate_of_def t [symmetric] a [symmetric]
    by (auto simp: rep split: sum.splits if_splits)
  from c1 c2 c3 c4 c5 show ?thesis by blast
qed

theorem retention_rate_is_rounded_percentage_witness:
  "\<exists>rep. get_donor_lifecycle_analytics ''org'' False MEDIUM example_db example_now = Inr rep
     \<and> total_donors (summary_metrics rep) = 2
     \<and> active_donors (summary_metrics rep) = 1
     \<and> int_truediv 1 2 = Inr (1 / 2)
     \<and> float_round (float_mul (1 / 2) 100) 1 = Inr (Finite 50)
     \<and> retention_rate (summary_metrics rep) = Finite 50"
proof -
  obtain rep where h:
      "get_donor_lifecycle_analytics ''org'' False MEDIUM example_db example_now = Inr rep"
    using example_report_returned by blast
  have v: "map_sum id (\<lambda>rep. (active_donors (summary_metrics rep), total_donors (summary_metrics rep)))
      (get_donor_lifecycle_analytics ''org'' False MEDIUM example_db example_now) = Inr (1, 2)"
    by (simp add: endpoint_defs float_defs date_defs example_db_def example_now_def)
  have at: "active_donors (summary_metrics rep) = 1" "total_donors (summary_metrics rep) = 2"
    using v unfolding h by simp_all
  have d: "int_truediv 1 2 = Inr (1 / 2)" "float_round (float_mul (1 / 2) 100) 1 = Inr (Finite 50)"
    by (simp_all add: float_defs)
  from retention_rate_is_rounded_percentage [OF h] at
  obtain q where q: "int_truediv 1 2 = Inr q"
      "float_round (float_mul q 100) 1 = Inr (retention_rate (summary_metrics rep))"
    by auto
  from q(1) d(1) have "q = 1 / 2" by simp
  with q(2) d(2) have "retention_rate (summary_metrics rep) = Finite 50" by simp
  then show ?thesis using h at d by simp
qed

end
